theory Spec2Isabelle
  imports Main
begin

section \<open>smallsh: a shallow embedding of src/smallsh.c\<close>

text \<open>
  The shell is a single C file. Its functions are translated one by one, keeping their
  names. What the C code does beyond computing values is made explicit:

  \<^item> every system call and every line printed is appended to a trace of events;
  \<^item> the values the operating system returns (descriptors, process ids, wait statuses)
    are read from a record \<open>os\<close> with one field per call site, so that a theorem that
    quantifies over \<open>os\<close> holds whatever the system answers;
  \<^item> a NULL dereference, a write past a fixed buffer, a process image replaced by exec
    and a call of \<open>exit\<close> stop the run; they are values of type \<open>halt\<close>.

  Memory that the C code reads without having written it is modelled as follows. The
  struct \<open>command\<close> comes from \<open>malloc\<close> and only its field \<open>ampersand\<close> is initialised:
  the array \<open>arguments\<close> and the fields \<open>inputFile\<close> and \<open>outputFile\<close> start with what
  the memory holds, given by the fields \<open>malloc_arguments\<close>, \<open>malloc_inputFile\<close> and
  \<open>malloc_outputFile\<close> of \<open>os\<close>. A pointer is modelled by the string it points to, NULL
  by None. The struct \<open>processes\<close> comes from \<open>malloc\<close> too; the model starts its counter
  \<open>pidCount\<close> at 0, and the first value of its field \<open>signal\<close> is a parameter. The local
  \<open>sourceFD\<close> of \<open>otherCommands\<close> is read before any assignment on one path; its first
  value is the field \<open>stack_sourceFD\<close> of \<open>os\<close>.
\<close>

subsection \<open>Events, halts and the answers of the operating system\<close>

datatype signame = SIGINT | SIGTSTP | SIGKILL

datatype disposition = SIG_IGN | SIG_DFL | Handler_SIGTSTP

datatype oflag = O_RDONLY | O_WRONLY_CREAT_TRUNC_0644

datatype wait_option = Blocking | WNOHANG

datatype event =
    Printf string
  | Write string
  | Kill int signame
  | Chdir "string option"
  | Open string oflag
  | Fork
  | Sigaction signame disposition
  | Dup2 int int
  | Execvp string "string list"
  | Fcntl_cloexec int
  | Close int
  | Waitpid int wait_option

datatype halt = NullPointer | BufferOverflow | ImageReplaced | ProcessExit int

text \<open>
  The status word that \<open>waitpid\<close> stores, read only through the three macros of
  \<open>sys/wait.h\<close> that the code uses. \<open>WTERMSIG\<close> of an exited child and \<open>WEXITSTATUS\<close>
  of a signalled one are 0, as the bit layout of the word gives them.
\<close>

datatype wait_status = WExited int | WSignaled int

fun WIFSIGNALED :: "wait_status \<Rightarrow> int" where
  "WIFSIGNALED (WSignaled s) = 1"
| "WIFSIGNALED (WExited c) = 0"

fun WTERMSIG :: "wait_status \<Rightarrow> int" where
  "WTERMSIG (WSignaled s) = s"
| "WTERMSIG (WExited c) = 0"

fun WEXITSTATUS :: "wait_status \<Rightarrow> int" where
  "WEXITSTATUS (WExited c) = c"
| "WEXITSTATUS (WSignaled s) = 0"

record os =
  malloc_arguments :: "nat \<Rightarrow> string option"
  malloc_inputFile :: "string option"
  malloc_outputFile :: "string option"
  getpid_ret :: int
  getenv_HOME :: "string option"
  chdir_ret :: int
  open_input :: int
  open_output :: int
  stack_sourceFD :: int
  stack_targetFD :: int
  fork_ret :: int
  open_null_rd :: int
  open_null_wr :: int
  dup2_input :: int
  dup2_output :: int
  execvp_ret :: int
  wait_childStatus :: wait_status
  waitpid_nohang :: "nat \<Rightarrow> int \<times> wait_status"

subsection \<open>The data of the program\<close>

text \<open>
  \<open>arguments i\<close> is slot \<open>i\<close> of the array of 512 pointers; the indices from 512 on are
  outside the array and the model never writes or reads them.
\<close>

record command =
  command :: string
  arguments :: "nat \<Rightarrow> string option"
  inputFile :: "string option"
  outputFile :: "string option"
  ampersand :: int

text \<open>
  The vector that \<open>execvp\<close> reads from \<open>arguments\<close>: the slots before the first NULL.
  With no NULL in the array the read runs past it, and the result is None.
\<close>

definition argv :: "command \<Rightarrow> string list option" where
  "argv cmd =
     (case List.find (\<lambda>i. arguments cmd i = None) [0..<512] of
        None \<Rightarrow> None
      | Some n \<Rightarrow> Some (map (\<lambda>i. the (arguments cmd i)) [0..<n]))"

text \<open>
  \<open>backgroundPids\<close> holds the entries of the C array below \<open>pidCount\<close>, in index order;
  \<open>pidCount\<close> is its length. The fields \<open>exitedPids\<close> and \<open>exitedCount\<close> are never used
  by the code and are left out.
\<close>

record processes =
  backgroundPids :: "int list"
  status :: int
  signal :: int

definition pidCount :: "processes \<Rightarrow> nat" where
  "pidCount p = length (backgroundPids p)"

record shell_state =
  procs :: processes
  foreground :: int
  trace :: "event list"

definition emit :: "event \<Rightarrow> shell_state \<Rightarrow> shell_state" where
  "emit e st = st\<lparr>trace := trace st @ [e]\<rparr>"

definition set_status :: "int \<Rightarrow> shell_state \<Rightarrow> shell_state" where
  "set_status n st = st\<lparr>procs := (procs st)\<lparr>status := n\<rparr>\<rparr>"

definition set_signal :: "int \<Rightarrow> shell_state \<Rightarrow> shell_state" where
  "set_signal n st = st\<lparr>procs := (procs st)\<lparr>signal := n\<rparr>\<rparr>"

definition nl :: string where
  "nl = [CHR 0x0A]"

subsection \<open>The C library: printing an int, strstr, strtok\<close>

fun digits :: "nat \<Rightarrow> string" where
  "digits n = (if n < 10 then [''0123456789'' ! n]
               else digits (n div 10) @ [''0123456789'' ! (n mod 10)])"

declare digits.simps [simp del]

definition show_int :: "int \<Rightarrow> string" where
  "show_int i = (if i < 0 then CHR ''-'' # digits (nat (- i)) else digits (nat i))"

fun strstr :: "string \<Rightarrow> string \<Rightarrow> string option" where
  "strstr [] needle = (if needle = [] then Some [] else None)"
| "strstr (c # cs) needle =
     (if take (length needle) (c # cs) = needle then Some (c # cs) else strstr cs needle)"

text \<open>
  \<open>strtok s delim\<close> is a first call of strtok on the buffer \<open>s\<close>: it skips the leading
  delimiters, and the token runs up to the next delimiter, over which a NUL is written.
  The result is the token (None for NULL), the string the buffer holds afterwards when
  read from its start, and the position saved for the calls \<open>strtok(NULL, delim)\<close>.
\<close>

definition strtok :: "string \<Rightarrow> string \<Rightarrow> string option \<times> string \<times> string" where
  "strtok s delim =
     (let lead = takeWhile (\<lambda>c. c \<in> set delim) s;
          r = dropWhile (\<lambda>c. c \<in> set delim) s;
          tok = takeWhile (\<lambda>c. c \<notin> set delim) r;
          rest = dropWhile (\<lambda>c. c \<notin> set delim) r
      in if r = [] then (None, s, []) else (Some tok, lead @ tok, drop 1 rest))"

subsection \<open>The signal handler and the three built-in commands\<close>

definition handle_SIGTSTP :: "shell_state \<Rightarrow> shell_state" where
  "handle_SIGTSTP st =
     (if foreground st = 0
      then (emit (Write (take 29 ''Entering foreground-only mode'')) st)\<lparr>foreground := 1\<rparr>
      else (emit (Write (take 28 ''Exiting foreground-only mode'')) st)\<lparr>foreground := 0\<rparr>)"

definition exitShell :: "shell_state \<Rightarrow> shell_state" where
  "exitShell st = fold (\<lambda>pid. emit (Kill pid SIGKILL)) (backgroundPids (procs st)) st"

text \<open>\<open>cdShell\<close> reads slot 1 of \<open>arguments\<close>, whether \<open>parseInput\<close> has written it or not.\<close>

definition cdShell :: "os \<Rightarrow> command \<Rightarrow> shell_state \<Rightarrow> shell_state" where
  "cdShell os input st =
     (case arguments input 1 of
        None \<Rightarrow> emit (Chdir (getenv_HOME os)) st
      | Some dir \<Rightarrow>
          (let st1 = emit (Chdir (Some dir)) st
           in if chdir_ret os = - 1
              then emit (Printf (''Error finding this directory.'' @ nl)) st1
              else st1))"

definition statusShell :: "shell_state \<Rightarrow> shell_state" where
  "statusShell st =
     (if status (procs st) = 0 then emit (Printf (''exit value 0'' @ nl)) st
      else if status (procs st) = 1 then emit (Printf (''exit value 1'' @ nl)) st
      else emit (Printf (''terminated by signal '' @ show_int (signal (procs st)) @ nl)) st)"

subsection \<open>parseInput, first part: the expansion of \<open>$$\<close>\<close>

definition len :: nat where
  "len = 2049"

lemma strtok_Some:
  "strtok s delim = (Some t, v, r) \<Longrightarrow>
     dropWhile (\<lambda>c. c \<in> set delim) s \<noteq> [] \<and>
     t = takeWhile (\<lambda>c. c \<notin> set delim) (dropWhile (\<lambda>c. c \<in> set delim) s) \<and>
     v = takeWhile (\<lambda>c. c \<in> set delim) s @ t \<and>
     r = drop 1 (dropWhile (\<lambda>c. c \<notin> set delim) (dropWhile (\<lambda>c. c \<in> set delim) s))"
  unfolding strtok_def Let_def by (auto split: if_splits)

lemma strtok_token_nonempty:
  assumes "strtok s delim = (Some t, v, r)"
  shows "t \<noteq> []"
proof -
  let ?r = "dropWhile (\<lambda>c. c \<in> set delim) s"
  from strtok_Some [OF assms] have ne: "?r \<noteq> []"
    and t: "t = takeWhile (\<lambda>c. c \<notin> set delim) ?r"
    by blast+
  from ne have "hd ?r \<notin> set delim"
    by (rule hd_dropWhile)
  with ne have "takeWhile (\<lambda>c. c \<notin> set delim) ?r \<noteq> []"
    by (cases ?r) simp_all
  with t show ?thesis by simp
qed

lemma strtok_saved_shorter:
  assumes "strtok s delim = (Some t, v, r)"
  shows "length r < length s"
proof -
  let ?r = "dropWhile (\<lambda>c. c \<in> set delim) s"
  let ?rest = "dropWhile (\<lambda>c. c \<notin> set delim) ?r"
  from strtok_Some [OF assms] have ne: "?r \<noteq> []" and r: "r = drop 1 ?rest"
    by blast+
  have "length ?rest \<le> length ?r" by (rule length_dropWhile_le)
  moreover have "length ?r \<le> length s" by (rule length_dropWhile_le)
  moreover from ne have "0 < length ?r" by simp
  moreover from r have "length r = length ?rest - 1" by simp
  ultimately show ?thesis by linarith
qed

text \<open>
  The while loop of lines 458 to 479. \<open>inputCopy\<close> and \<open>inputPID\<close> are buffers of \<open>len\<close>
  bytes. \<open>strcat(inputPID, copyToken)\<close> with a NULL token stops the run, and so does a
  string that no longer fits \<open>inputPID\<close>.
\<close>

function expand_loop :: "string \<Rightarrow> string \<Rightarrow> string \<Rightarrow> halt + string" where
  "expand_loop pidString inputCopy inputPID =
     (case strstr inputCopy ''$$'' of
        None \<Rightarrow> Inr inputPID
      | Some found \<Rightarrow>
          (case strtok inputCopy ''$$'' of
             (None, _, _) \<Rightarrow> Inl NullPointer
           | (Some copyToken, inputCopy', _) \<Rightarrow>
               (let inputPID' = inputPID @ copyToken @ pidString @
                      (case fst (strtok found ''$$'') of
                         None \<Rightarrow> []
                       | Some substringToken \<Rightarrow> substringToken)
                in if len \<le> length inputPID' then Inl BufferOverflow
                   else expand_loop pidString inputCopy' inputPID')))"
  by pat_completeness auto
termination
proof (relation "measure (\<lambda>(pidString, inputCopy, inputPID). len - length inputPID)", goal_cases)
  case 1
  show ?case by simp
next
  case (2 pidString inputCopy inputPID found x y copyToken inputCopy' z inputPID')
  from 2 have "strtok inputCopy ''$$'' = (Some copyToken, inputCopy', z)"
    by simp
  then have "copyToken \<noteq> []" by (rule strtok_token_nonempty)
  then have "length inputPID < length inputPID + length copyToken"
    by simp
  moreover from 2 have "length inputPID + length copyToken \<le> length inputPID'" by simp
  moreover from 2 have "length inputPID' < len" by simp
  ultimately have "len - length inputPID' < len - length inputPID" by linarith
  then show ?case by simp
qed

declare expand_loop.simps [simp del]

text \<open>
  Lines 443 to 479: \<open>pidString\<close> has 6 bytes, so a process id of more than 5 characters
  overflows it; a line without the marker is copied as it is.
\<close>

definition expand :: "int \<Rightarrow> string \<Rightarrow> halt + string" where
  "expand pid inputCopy =
     (let pidString = show_int pid
      in if 6 \<le> length pidString then Inl BufferOverflow
         else if strstr inputCopy ''$$'' = None then Inr inputCopy
         else expand_loop pidString inputCopy [])"

subsection \<open>parseInput, second part: the command structure\<close>

text \<open>
  \<open>strtok_all s delim\<close> lists the tokens that a first call of strtok on \<open>s\<close> and the
  calls \<open>strtok(NULL, delim)\<close> after it return, up to the first NULL.
\<close>

function strtok_all :: "string \<Rightarrow> string \<Rightarrow> string list" where
  "strtok_all s delim =
     (case strtok s delim of
        (None, _, _) \<Rightarrow> []
      | (Some token, _, saved) \<Rightarrow> token # strtok_all saved delim)"
  by pat_completeness auto
termination
proof (relation "measure (\<lambda>(s, delim). length s)", goal_cases)
  case 1
  show ?case by simp
next
  case (2 s delim x y token v saved)
  then have "strtok s delim = (Some token, v, saved)"
    by simp
  then have "length saved < length s" by (rule strtok_saved_shorter)
  then show ?case by simp
qed

declare strtok_all.simps [simp del]

text \<open>
  The while loop of lines 500 to 541, on the tokens still to come. A write to
  \<open>arguments[tokenCount]\<close> with \<open>tokenCount\<close> at 512 is past the array. A redirection sign
  as the last token passes NULL to \<open>strlen\<close>.
\<close>

fun tokenize :: "int \<Rightarrow> string list \<Rightarrow> nat \<Rightarrow> command \<Rightarrow> halt + command" where
  "tokenize fg [] tokenCount currentCommand = Inr currentCommand"
| "tokenize fg (token # rest) tokenCount currentCommand =
     (if token = ''<'' then
        (case rest of
           [] \<Rightarrow> Inl NullPointer
         | file # rest' \<Rightarrow>
             tokenize fg rest' tokenCount (currentCommand\<lparr>inputFile := Some file\<rparr>))
      else if token = ''>'' then
        (case rest of
           [] \<Rightarrow> Inl NullPointer
         | file # rest' \<Rightarrow>
             tokenize fg rest' tokenCount (currentCommand\<lparr>outputFile := Some file\<rparr>))
      else if token = ''&'' then
        tokenize fg rest tokenCount
          (if rest = [] \<and> fg = 0 then currentCommand\<lparr>ampersand := 1\<rparr> else currentCommand)
      else if 512 \<le> tokenCount then Inl BufferOverflow
      else tokenize fg rest (Suc tokenCount)
             (currentCommand\<lparr>arguments := (arguments currentCommand)(tokenCount := Some token)\<rparr>))"

text \<open>
  Lines 482 to 541. The struct is what \<open>malloc\<close> returns, with \<open>ampersand\<close> set to 0, the
  first token stored as \<open>command\<close> and in slot 0, and \<open>tokenCount\<close> at 1 when the loop starts.
\<close>

definition build_command :: "os \<Rightarrow> int \<Rightarrow> string \<Rightarrow> halt + command" where
  "build_command os fg inputPID =
     (case strtok_all inputPID '' '' of
        [] \<Rightarrow> Inl NullPointer
      | token # rest \<Rightarrow>
          tokenize fg rest 1
            \<lparr>command = token, arguments = (malloc_arguments os)(0 := Some token),
             inputFile = malloc_inputFile os, outputFile = malloc_outputFile os,
             ampersand = 0\<rparr>)"

subsection \<open>otherCommands\<close>

text \<open>
  The function runs in the shell up to \<open>fork\<close> and in two processes after it. The field
  \<open>fork_ret\<close> of \<open>os\<close> says which one a run follows: 0 is the child, a positive value the
  parent. \<open>execvp\<close> returns only when it fails, with -1; any other value of \<open>execvp_ret\<close>
  stands for a replaced process image. It is called with the vector \<open>argv\<close> of the
  command; a read past the array stops the run.
\<close>

definition child :: "os \<Rightarrow> command \<Rightarrow> int \<Rightarrow> int \<Rightarrow> shell_state \<Rightarrow> halt option \<times> shell_state" where
  "child os cmd sourceFD targetFD st =
     (let st1 = (if ampersand cmd = 0 then emit (Sigaction SIGINT SIG_DFL) st else st);
          st2 = (if inputFile cmd \<noteq> None then emit (Dup2 sourceFD 0) st1 else st1)
      in if inputFile cmd \<noteq> None \<and> dup2_input os = - 1 then (None, set_status 1 st2)
         else
           (let st3 = (if outputFile cmd \<noteq> None then emit (Dup2 targetFD 1) st2 else st2)
            in if outputFile cmd \<noteq> None \<and> dup2_output os = - 1 then (None, set_status 1 st3)
               else
                 (case argv cmd of
                    None \<Rightarrow> (Some BufferOverflow, st3)
                  | Some vector \<Rightarrow>
                      (let st4 = emit (Execvp (command cmd) vector) st3
                       in if execvp_ret os = - 1
                          then
                            (let st5 = set_status 1
                                   (emit (Printf (''Command not found.'' @ nl)) st4);
                                 st6 = (if inputFile cmd \<noteq> None
                                        then emit (Fcntl_cloexec sourceFD) st5 else st5);
                                 st7 = (if outputFile cmd \<noteq> None
                                        then emit (Fcntl_cloexec targetFD) st6 else st6)
                             in (Some (ProcessExit 1), st7))
                          else (Some ImageReplaced, st4)))))"

definition parent :: "os \<Rightarrow> command \<Rightarrow> int \<Rightarrow> int \<Rightarrow> int \<Rightarrow> shell_state \<Rightarrow> halt option \<times> shell_state" where
  "parent os cmd sourceFD targetFD newPid st =
     (let st1 = (if inputFile cmd \<noteq> None then emit (Close sourceFD) st else st);
          st2 = (if outputFile cmd \<noteq> None then emit (Close targetFD) st1 else st1)
      in if ampersand cmd = 0
         then
           (let st3 = emit (Waitpid newPid Blocking) (emit (Sigaction SIGTSTP Handler_SIGTSTP) st2);
                childStatus = wait_childStatus os
            in if WIFSIGNALED childStatus \<noteq> 0
               then (None,
                     set_status 2 (set_signal (WTERMSIG childStatus)
                       (emit (Printf (''Child terminated with signal '' @
                          show_int (WTERMSIG childStatus) @ nl)) st3)))
               else (None, set_status (WEXITSTATUS childStatus) st3))
         else
           (let st3 = emit (Printf (''Background process is '' @ show_int newPid @ nl)) st2
            in if 500 \<le> pidCount (procs st3) then (Some BufferOverflow, st3)
               else (None,
                     emit (Sigaction SIGTSTP Handler_SIGTSTP)
                       (st3\<lparr>procs := (procs st3)
                          \<lparr>backgroundPids := backgroundPids (procs st3) @ [newPid]\<rparr>\<rparr>))))"

definition otherCommands :: "os \<Rightarrow> command \<Rightarrow> shell_state \<Rightarrow> halt option \<times> shell_state" where
  "otherCommands os cmd st =
     (let st1 = (case inputFile cmd of
                   None \<Rightarrow> st
                 | Some file \<Rightarrow> emit (Open file O_RDONLY) st);
          sourceFD = (if inputFile cmd \<noteq> None then open_input os else stack_sourceFD os)
      in if inputFile cmd \<noteq> None \<and> sourceFD = - 1
         then (None,
               emit (Printf (''Cannot open '' @ the (inputFile cmd) @ '' for input.'' @ nl))
                 (set_status 1 st1))
         else
           (let st2 = (case outputFile cmd of
                         None \<Rightarrow> st1
                       | Some file \<Rightarrow> emit (Open file O_WRONLY_CREAT_TRUNC_0644) st1);
                targetFD = (if outputFile cmd \<noteq> None then open_output os else stack_targetFD os)
            in if outputFile cmd \<noteq> None \<and> sourceFD = - 1 then (None, set_status 1 st2)
               else
                 (let st3 = emit Fork st2;
                      newPid = fork_ret os;
                      st4 = (if ampersand cmd = 1 \<and> outputFile cmd = None
                             then emit (Open ''/dev/null/'' O_RDONLY) st3 else st3);
                      sourceFD' = (if ampersand cmd = 1 \<and> outputFile cmd = None
                                   then open_null_rd os else sourceFD);
                      st5 = (if ampersand cmd = 1 \<and> inputFile cmd = None
                             then emit (Open ''/dev/null/'' O_WRONLY_CREAT_TRUNC_0644) st4 else st4);
                      targetFD' = (if ampersand cmd = 1 \<and> inputFile cmd = None
                                   then open_null_wr os else targetFD);
                      st6 = emit (Sigaction SIGTSTP SIG_IGN) (emit (Sigaction SIGINT SIG_IGN) st5)
                  in if newPid < 0
                     then (None, emit (Printf ''fork() failed.'') (set_status 1 st6))
                     else if newPid = 0 then child os cmd sourceFD' targetFD' st6
                     else parent os cmd sourceFD' targetFD' newPid st6)))"

subsection \<open>parseInput\<close>

text \<open>Lines 547 to 566: the choice of the command to run, and the value parseInput returns.\<close>

definition dispatch :: "os \<Rightarrow> command \<Rightarrow> shell_state \<Rightarrow> (halt + int) \<times> shell_state" where
  "dispatch os currentCommand st =
     (if command currentCommand = ''exit'' then (Inr 1, exitShell st)
      else if command currentCommand = ''cd'' then (Inr 0, cdShell os currentCommand st)
      else if command currentCommand = ''status'' then (Inr 0, statusShell st)
      else (case otherCommands os currentCommand st of
              (None, st') \<Rightarrow> (Inr 0, st')
            | (Some h, st') \<Rightarrow> (Inl h, st')))"

text \<open>
  \<open>input\<close> is a pointer: None is NULL, which \<open>strcpy\<close> dereferences. The three tests of
  lines 426 to 440 read \<open>input\<close> after \<open>strtok(input, " ")\<close> has cut it.
\<close>

definition parseInput :: "os \<Rightarrow> string option \<Rightarrow> shell_state \<Rightarrow> (halt + int) \<times> shell_state" where
  "parseInput os input st =
     (case input of
        None \<Rightarrow> (Inl NullPointer, st)
      | Some line \<Rightarrow>
          if len \<le> length line then (Inl BufferOverflow, st)
          else
            (case strtok line '' '' of
               (startToken, input', _) \<Rightarrow>
                 if input' = nl then (Inr 0, emit (Printf nl) st)
                 else if startToken = None then (Inr 0, st)
                 else if take 1 input' = take 1 ''#'' then (Inr 0, st)
                 else
                   (case expand (getpid_ret os) line of
                      Inl h \<Rightarrow> (Inl h, st)
                    | Inr inputPID \<Rightarrow>
                        (case build_command os (foreground st) inputPID of
                           Inl h \<Rightarrow> (Inl h, st)
                         | Inr currentCommand \<Rightarrow> dispatch os currentCommand st))))"

subsection \<open>shell and main\<close>

text \<open>
  The for loop of lines 614 to 636 over the tracked process ids; \<open>i\<close> is the loop index
  and \<open>waitpid_nohang os i\<close> the value and the status of the i-th call of \<open>waitpid\<close>.
\<close>

definition report :: "int \<Rightarrow> wait_status \<Rightarrow> shell_state \<Rightarrow> shell_state" where
  "report pid backgroundStatus st =
     (if WIFSIGNALED backgroundStatus \<noteq> 0
      then set_status 2 (set_signal (WTERMSIG backgroundStatus)
             (emit (Printf (''Process '' @ show_int pid @ '' terminated with signal '' @
                show_int (WTERMSIG backgroundStatus) @ nl)) st))
      else emit (Printf (''Process '' @ show_int pid @ '' ended with status '' @
                show_int (WEXITSTATUS backgroundStatus) @ nl))
             (set_status (WEXITSTATUS backgroundStatus) st))"

fun reap :: "os \<Rightarrow> nat \<Rightarrow> int list \<Rightarrow> shell_state \<Rightarrow> shell_state" where
  "reap os i [] st = st"
| "reap os i (pid # pids) st =
     (let st1 = emit (Waitpid pid WNOHANG) st
      in reap os (Suc i) pids
           (if 0 < fst (waitpid_nohang os i) then report pid (snd (waitpid_nohang os i)) st1
            else st1))"

definition reaper :: "os \<Rightarrow> shell_state \<Rightarrow> shell_state" where
  "reaper os st = reap os 0 (backgroundPids (procs st)) st"

text \<open>
  One pass of the while loop of \<open>shell\<close>: \<open>line\<close> is what \<open>getline\<close> has read, with its
  newline; \<open>os\<close> holds the answers of the system during this pass.
\<close>

definition shell_iteration :: "os \<Rightarrow> string \<Rightarrow> shell_state \<Rightarrow> (halt + int) \<times> shell_state" where
  "shell_iteration os line st =
     (case parseInput os (fst (strtok line nl)) (emit (Printf '': '') st) of
        (Inl h, st') \<Rightarrow> (Inl h, st')
      | (Inr loop, st') \<Rightarrow> (Inr loop, reaper os st'))"

text \<open>The while loop, on the lines of a session; it ends with the lines.\<close>

fun shell :: "(os \<times> string) list \<Rightarrow> shell_state \<Rightarrow> (halt + int) \<times> shell_state" where
  "shell [] st = (Inr 0, st)"
| "shell ((os, line) # session) st =
     (case shell_iteration os line st of
        (Inl h, st') \<Rightarrow> (Inl h, st')
      | (Inr loop, st') \<Rightarrow> if loop = 0 then shell session st' else (Inr loop, st'))"

text \<open>
  The state in which \<open>shell\<close> enters its loop: \<open>main\<close> has cleared \<open>foreground\<close> and
  installed the two signal actions, \<open>shell\<close> has set \<open>status\<close> to 0. \<open>signal0\<close> is the
  value that the field \<open>signal\<close> happens to hold.
\<close>

definition main :: "int \<Rightarrow> shell_state" where
  "main signal0 =
     \<lparr>procs = \<lparr>backgroundPids = [], status = 0, signal = signal0\<rparr>,
      foreground = 0,
      trace = [Sigaction SIGINT SIG_IGN, Sigaction SIGTSTP Handler_SIGTSTP]\<rparr>"

subsection \<open>Notions used in the statements\<close>

text \<open>An array of NULL pointers, and what it holds once the strings \<open>ts\<close> are stored from slot 0.\<close>

definition zeroed :: "nat \<Rightarrow> string option" where
  "zeroed = (\<lambda>i. None)"


text \<open>
  \<open>quiet_os\<close> is one possible set of answers: the memory from \<open>malloc\<close> is zeroed, every
  call succeeds, the process is the parent of child 4321, and no background child has
  ended.
\<close>

definition quiet_os :: os where
  "quiet_os =
     \<lparr>malloc_arguments = zeroed, malloc_inputFile = None, malloc_outputFile = None,
      getpid_ret = 1234, getenv_HOME = Some ''/root'', chdir_ret = 0,
      open_input = 3, open_output = 4, stack_sourceFD = 0, stack_targetFD = 0,
      fork_ret = 4321, open_null_rd = - 1, open_null_wr = - 1,
      dup2_input = 0, dup2_output = 1, execvp_ret = 0,
      wait_childStatus = WExited 0, waitpid_nohang = (\<lambda>i. (0, WExited 0))\<rparr>"

text \<open>
  Two more sets of answers: in the first the child 100 has ended when the loop polls
  it; in the second \<open>fork\<close> returns the process id 100 again, as the system may once the
  first child has been waited for.
\<close>

definition ended_os :: os where
  "ended_os = quiet_os\<lparr>fork_ret := 100, waitpid_nohang := (\<lambda>i. (100, WExited 0))\<rparr>"

definition reused_os :: os where
  "reused_os = quiet_os\<lparr>fork_ret := 100\<rparr>"

text \<open>A blocking \<open>waitpid\<close> in the trace.\<close>

definition is_blocking_wait :: "event \<Rightarrow> bool" where
  "is_blocking_wait e = (case e of Waitpid p Blocking \<Rightarrow> True | _ \<Rightarrow> False)"

text \<open>The line that \<open>report\<close> prints about a process id and its status.\<close>

definition reported_line :: "int \<Rightarrow> wait_status \<Rightarrow> string" where
  "reported_line pid bs =
     ''Process '' @ show_int pid @
     (if WIFSIGNALED bs \<noteq> 0 then '' terminated with signal '' @ show_int (WTERMSIG bs)
      else '' ended with status '' @ show_int (WEXITSTATUS bs)) @ nl"

section \<open>Properties\<close>

subsection \<open>Basic facts\<close>

lemma emit_simps [simp]:
  "procs (emit e st) = procs st"
  "foreground (emit e st) = foreground st"
  "trace (emit e st) = trace st @ [e]"
  by (simp_all add: emit_def)

lemma set_status_simps [simp]:
  "backgroundPids (procs (set_status n st)) = backgroundPids (procs st)"
  "status (procs (set_status n st)) = n"
  "signal (procs (set_status n st)) = signal (procs st)"
  "foreground (set_status n st) = foreground st"
  "trace (set_status n st) = trace st"
  by (simp_all add: set_status_def)

lemma set_signal_simps [simp]:
  "backgroundPids (procs (set_signal n st)) = backgroundPids (procs st)"
  "status (procs (set_signal n st)) = status (procs st)"
  "signal (procs (set_signal n st)) = n"
  "foreground (set_signal n st) = foreground st"
  "trace (set_signal n st) = trace st"
  by (simp_all add: set_signal_def)

subsection \<open>The signal handler\<close>

text \<open>
  Claim C10. Two calls of \<open>handle_SIGTSTP\<close> in a row restore the flag \<open>foreground\<close>: to
  the same value when it is 0 or 1, the only values the program ever stores (\<open>main\<close>
  stores 0, the handler 0 or 1), and to the same mode (zero or not) for every value of
  the int. Each call writes exactly one of the two fixed messages and changes nothing
  else: the process table is the same, and the state differs from the old one in
  \<open>foreground\<close> and in the trace only.
\<close>

theorem handle_SIGTSTP_toggle:
  "(foreground st = 0 \<or> foreground st = 1 \<longrightarrow>
      foreground (handle_SIGTSTP (handle_SIGTSTP st)) = foreground st) \<and>
   ((foreground (handle_SIGTSTP (handle_SIGTSTP st)) = 0) = (foreground st = 0)) \<and>
   (trace (handle_SIGTSTP st) = trace st @ [Write ''Entering foreground-only mode''] \<or>
    trace (handle_SIGTSTP st) = trace st @ [Write ''Exiting foreground-only mode'']) \<and>
   (foreground (handle_SIGTSTP st) = 0 \<or> foreground (handle_SIGTSTP st) = 1) \<and>
   procs (handle_SIGTSTP st) = procs st \<and>
   handle_SIGTSTP st =
     st\<lparr>foreground := foreground (handle_SIGTSTP st), trace := trace (handle_SIGTSTP st)\<rparr>"
  by (simp add: handle_SIGTSTP_def emit_def)

theorem handle_SIGTSTP_toggle_witness:
  "foreground (main 0) = 0 \<and>
   foreground (handle_SIGTSTP (handle_SIGTSTP (main 0))) = foreground (main 0) \<and>
   foreground (handle_SIGTSTP (main 0)) = 1 \<and>
   foreground (handle_SIGTSTP (handle_SIGTSTP (handle_SIGTSTP (main 0)))) = 1"
  using handle_SIGTSTP_toggle [of "main 0"] handle_SIGTSTP_toggle [of "handle_SIGTSTP (main 0)"]
  by (simp add: main_def handle_SIGTSTP_def emit_def)

subsection \<open>The built-in commands\<close>

lemma exitShell_trace_aux:
  "fold (\<lambda>pid. emit (Kill pid SIGKILL)) pids st =
     st\<lparr>trace := trace st @ map (\<lambda>pid. Kill pid SIGKILL) pids\<rparr>"
  by (induction pids arbitrary: st) (simp_all add: emit_def)

lemma exitShell_eq:
  "exitShell st =
     st\<lparr>trace := trace st @ map (\<lambda>pid. Kill pid SIGKILL) (backgroundPids (procs st))\<rparr>"
  by (simp add: exitShell_def exitShell_trace_aux)

lemma cdShell_procs: "procs (cdShell os cmd st) = procs st"
  by (simp add: cdShell_def Let_def split: option.splits)

lemma statusShell_procs: "procs (statusShell st) = procs st"
  by (simp add: statusShell_def)

lemma length_digits_5: "n < 100000 \<Longrightarrow> length (digits n) < 6"
  by (simp add: digits.simps [of n] digits.simps [of "n div 10"] digits.simps [of "n div 100"]
      digits.simps [of "n div 1000"] digits.simps [of "n div 10000"] div_mult2_eq [symmetric])

lemma pidString_fits:
  assumes "0 \<le> pid" "pid < 100000"
  shows "\<not> 6 \<le> length (show_int pid)"
proof -
  from assms have "nat pid < 100000" by linarith
  then have "length (digits (nat pid)) < 6" by (rule length_digits_5)
  with assms show ?thesis by (simp add: show_int_def)
qed

lemma parseInput_exit:
  assumes "0 \<le> getpid_ret os" "getpid_ret os < 100000"
  shows "parseInput os (Some ''exit'') st = (Inr 1, exitShell st)"
  using pidString_fits [OF assms]
  by (simp add: parseInput_def len_def strtok_def nl_def expand_def Let_def
      build_command_def strtok_all.simps dispatch_def)

lemma reap_no_blocking_wait:
  "filter is_blocking_wait (trace (reap os i pids st)) = filter is_blocking_wait (trace st)"
  by (induction pids arbitrary: i st)
     (simp_all add: Let_def report_def set_status_def set_signal_def is_blocking_wait_def)

lemma kills_no_blocking_wait:
  "filter is_blocking_wait (map (\<lambda>pid. Kill pid SIGKILL) pids) = []"
  by (induction pids) (simp_all add: is_blocking_wait_def)

lemma shell_iteration_exit:
  assumes "0 \<le> getpid_ret os" "getpid_ret os < 100000"
  shows "shell_iteration os (''exit'' @ nl) st =
           (Inr 1, reaper os (exitShell (emit (Printf '': '') st)))"
proof -
  have "fst (strtok (''exit'' @ nl) nl) = Some ''exit''"
    by (simp add: strtok_def nl_def Let_def)
  then show ?thesis
    by (simp add: shell_iteration_def parseInput_exit [OF assms])
qed

text \<open>
  Claim C9. When the command is \<open>exit\<close>, the dispatch sends SIGKILL to every process id
  in \<open>backgroundPids\<close>, in order, does nothing else, and returns 1, the value that ends
  the loop of \<open>shell\<close>. On the line \<open>exit\<close> the shell prints its prompt, sends the
  kills, polls the tracked ids once without blocking and returns, whatever lines
  follow; no blocking \<open>waitpid\<close> is added to the trace. (The process id of the shell
  must fit \<open>pidString\<close>.)
\<close>

theorem exit_kills_every_tracked_pid:
  assumes "command cmd = ''exit''" and "0 \<le> getpid_ret os" and "getpid_ret os < 100000"
  shows "dispatch os cmd st =
           (Inr 1, st\<lparr>trace := trace st @
                      map (\<lambda>pid. Kill pid SIGKILL) (backgroundPids (procs st))\<rparr>) \<and>
         shell ((os, ''exit'' @ nl) # session) st =
           (Inr 1, reaper os (exitShell (emit (Printf '': '') st))) \<and>
         filter is_blocking_wait (trace (snd (shell ((os, ''exit'' @ nl) # session) st))) =
           filter is_blocking_wait (trace st)"
proof (intro conjI)
  show "dispatch os cmd st =
          (Inr 1, st\<lparr>trace := trace st @
                     map (\<lambda>pid. Kill pid SIGKILL) (backgroundPids (procs st))\<rparr>)"
    using assms(1) by (simp add: dispatch_def exitShell_eq)
  show sh: "shell ((os, ''exit'' @ nl) # session) st =
          (Inr 1, reaper os (exitShell (emit (Printf '': '') st)))"
    by (simp only: shell.simps shell_iteration_exit [OF assms(2,3)]) simp
  show "filter is_blocking_wait (trace (snd (shell ((os, ''exit'' @ nl) # session) st))) =
          filter is_blocking_wait (trace st)"
    by (simp only: sh)
       (simp add: reaper_def reap_no_blocking_wait exitShell_eq kills_no_blocking_wait
          is_blocking_wait_def)
qed

theorem exit_kills_every_tracked_pid_witness:
  "command \<lparr>command = ''exit'', arguments = zeroed(0 := Some ''exit''), inputFile = None,
      outputFile = None, ampersand = 0\<rparr> = ''exit'' \<and>
   0 \<le> getpid_ret quiet_os \<and> getpid_ret quiet_os < 100000 \<and>
   shell [(quiet_os, ''exit'' @ nl), (quiet_os, ''status'' @ nl)]
     ((main 0)\<lparr>procs := \<lparr>backgroundPids = [101, 102], status = 0, signal = 0\<rparr>\<rparr>) =
     (Inr 1,
      \<lparr>procs = \<lparr>backgroundPids = [101, 102], status = 0, signal = 0\<rparr>,
       foreground = 0,
       trace = [Sigaction SIGINT SIG_IGN, Sigaction SIGTSTP Handler_SIGTSTP, Printf '': '',
                Kill 101 SIGKILL, Kill 102 SIGKILL,
                Waitpid 101 WNOHANG, Waitpid 102 WNOHANG]\<rparr>)"
  using exit_kills_every_tracked_pid
    [where cmd = "\<lparr>command = ''exit'', arguments = zeroed(0 := Some ''exit''),
            inputFile = None, outputFile = None, ampersand = 0\<rparr>"
       and os = quiet_os and session = "[(quiet_os, ''status'' @ nl)]"
       and st = "(main 0)\<lparr>procs := \<lparr>backgroundPids = [101, 102], status = 0, signal = 0\<rparr>\<rparr>"]
  by (simp add: quiet_os_def main_def reaper_def exitShell_eq emit_def Let_def)

lemma dispatch_builtin_procs:
  "command cmd = ''exit'' \<or> command cmd = ''cd'' \<or> command cmd = ''status'' \<Longrightarrow>
     procs (snd (dispatch os cmd st)) = procs st"
  by (auto simp: dispatch_def exitShell_eq cdShell_procs statusShell_procs)

text \<open>
  Claim C7. None of the three built-ins changes the process table, so \<open>status\<close> and
  \<open>signal\<close> (and \<open>backgroundPids\<close>) are as before: for the three functions themselves,
  whatever \<open>chdir\<close> returns; for the dispatch of a command named \<open>exit\<close>, \<open>cd\<close> or
  \<open>status\<close>; and for \<open>parseInput\<close> on every line whose command is one of the three.
\<close>

theorem builtins_keep_last_status:
  "procs (exitShell st) = procs st \<and>
   procs (cdShell os cmd st) = procs st \<and>
   procs (statusShell st) = procs st \<and>
   (command cmd = ''exit'' \<or> command cmd = ''cd'' \<or> command cmd = ''status'' \<longrightarrow>
      procs (snd (dispatch os cmd st)) = procs st) \<and>
   (expand (getpid_ret os) line = Inr inputPID \<and>
    build_command os (foreground st) inputPID = Inr cmd \<and>
    (command cmd = ''exit'' \<or> command cmd = ''cd'' \<or> command cmd = ''status'') \<longrightarrow>
      procs (snd (parseInput os (Some line) st)) = procs st)"
proof (intro conjI impI)
  show "procs (exitShell st) = procs st" by (simp add: exitShell_eq)
  show "procs (cdShell os cmd st) = procs st" by (rule cdShell_procs)
  show "procs (statusShell st) = procs st" by (rule statusShell_procs)
  show "procs (snd (dispatch os cmd st)) = procs st"
    if "command cmd = ''exit'' \<or> command cmd = ''cd'' \<or> command cmd = ''status''"
    using that by (rule dispatch_builtin_procs)
  show "procs (snd (parseInput os (Some line) st)) = procs st"
    if h: "expand (getpid_ret os) line = Inr inputPID \<and>
      build_command os (foreground st) inputPID = Inr cmd \<and>
      (command cmd = ''exit'' \<or> command cmd = ''cd'' \<or> command cmd = ''status'')"
  proof -
    from h have "procs (snd (dispatch os cmd st)) = procs st"
      by (simp add: dispatch_builtin_procs)
    with h show ?thesis
      by (simp add: parseInput_def split: prod.splits)
  qed
qed

theorem builtins_keep_last_status_witness:
  "expand (getpid_ret quiet_os) ''cd /nonexistent'' = Inr ''cd /nonexistent'' \<and>
   build_command (quiet_os\<lparr>chdir_ret := - 1\<rparr>) 0 ''cd /nonexistent'' =
     Inr \<lparr>command = ''cd'', arguments = zeroed(0 := Some ''cd'', 1 := Some ''/nonexistent''),
          inputFile = None, outputFile = None, ampersand = 0\<rparr> \<and>
   procs (snd (parseInput (quiet_os\<lparr>chdir_ret := - 1\<rparr>) (Some ''cd /nonexistent'')
     ((main 7)\<lparr>procs := \<lparr>backgroundPids = [101], status = 2, signal = 15\<rparr>\<rparr>))) =
     \<lparr>backgroundPids = [101], status = 2, signal = 15\<rparr>"
  using builtins_keep_last_status
    [where st = "(main 7)\<lparr>procs := \<lparr>backgroundPids = [101], status = 2, signal = 15\<rparr>\<rparr>"
       and os = "quiet_os\<lparr>chdir_ret := - 1\<rparr>"
       and cmd = "\<lparr>command = ''cd'',
            arguments = zeroed(0 := Some ''cd'', 1 := Some ''/nonexistent''),
            inputFile = None, outputFile = None, ampersand = 0\<rparr>"
       and line = "''cd /nonexistent''" and inputPID = "''cd /nonexistent''"]
  by (simp add: quiet_os_def main_def expand_def show_int_def digits.simps Let_def
      build_command_def strtok_all.simps strtok_def)

subsection \<open>The background sign\<close>









text \<open>
  What \<open>malloc\<close> left in the struct reaches the child: with a pointer to \<open>aaaa\<close> in slot
  3, the child of \<open>echo $$ aaaa &\<close> passes that string to \<open>execvp\<close> after the three
  tokens.
\<close>

lemma stale_slot_reaches_execvp:
  "last (trace (snd (shell_iteration
      (quiet_os\<lparr>fork_ret := 0, malloc_arguments := zeroed(3 := Some ''aaaa'')\<rparr>)
      (''echo $$ aaaa &'' @ nl) (main 0)))) =
     Execvp ''echo'' [''echo'', ''1234'', ''aaaa'', ''aaaa'']"
  by code_simp

subsection \<open>The tracked process ids and the loop that polls them\<close>

lemma report_simps:
  "backgroundPids (procs (report pid bs st)) = backgroundPids (procs st)"
  "foreground (report pid bs st) = foreground st"
  "status (procs (report pid bs st)) = (if WIFSIGNALED bs \<noteq> 0 then 2 else WEXITSTATUS bs)"
  "WIFSIGNALED bs \<noteq> 0 \<Longrightarrow> signal (procs (report pid bs st)) = WTERMSIG bs"
  "trace (report pid bs st) = trace st @ [Printf (reported_line pid bs)]"
  by (simp_all add: report_def set_status_def set_signal_def emit_def reported_line_def)

lemma reap_backgroundPids:
  "backgroundPids (procs (reap os k pids st)) = backgroundPids (procs st)"
  by (induction pids arbitrary: k st) (simp_all add: Let_def report_simps)

lemma reap_trace_grows:
  "\<exists>es. trace (reap os k pids st) = trace st @ es"
proof (induction pids arbitrary: k st)
  case Nil
  show ?case by simp
next
  case (Cons pid pids)
  let ?st' = "if 0 < fst (waitpid_nohang os k)
              then report pid (snd (waitpid_nohang os k)) (emit (Waitpid pid WNOHANG) st)
              else emit (Waitpid pid WNOHANG) st"
  from Cons.IH [of "Suc k" ?st'] obtain es where
    "trace (reap os (Suc k) pids ?st') = trace ?st' @ es" ..
  then show ?case
    by (auto simp: Let_def report_simps)
qed

lemma reap_none:
  "(\<forall>j<length pids. \<not> 0 < fst (waitpid_nohang os (k + j))) \<Longrightarrow>
     procs (reap os k pids st) = procs st"
proof (induction pids arbitrary: k st)
  case Nil
  show ?case by simp
next
  case (Cons pid pids)
  from Cons.prems have here: "\<not> 0 < fst (waitpid_nohang os k)"
    by force
  from Cons.prems have "\<forall>j<length pids. \<not> 0 < fst (waitpid_nohang os (Suc k + j))"
    by force
  from Cons.IH [OF this] here show ?case
    by (simp add: Let_def)
qed

lemma reap_reports:
  assumes "i < length pids" and "0 < fst (waitpid_nohang os (k + i))"
  shows "Printf (reported_line (pids ! i) (snd (waitpid_nohang os (k + i))))
         \<in> set (trace (reap os k pids st))"
  using assms
proof (induction pids arbitrary: i k st)
  case Nil
  then show ?case by simp
next
  case (Cons pid pids)
  let ?st' = "if 0 < fst (waitpid_nohang os k)
              then report pid (snd (waitpid_nohang os k)) (emit (Waitpid pid WNOHANG) st)
              else emit (Waitpid pid WNOHANG) st"
  show ?case
  proof (cases i)
    case 0
    obtain es where "trace (reap os (Suc k) pids ?st') = trace ?st' @ es"
      using reap_trace_grows by blast
    with 0 Cons.prems show ?thesis
      by (simp add: Let_def report_simps)
  next
    case (Suc i')
    with Cons.prems have "i' < length pids" "0 < fst (waitpid_nohang os (Suc k + i'))"
      by simp_all
    from Cons.IH [OF this, of ?st'] Suc show ?thesis
      by (simp add: Let_def)
  qed
qed

lemma reap_last_status:
  assumes "i < length pids" and "0 < fst (waitpid_nohang os (k + i))"
    and "\<forall>j. i < j \<and> j < length pids \<longrightarrow> \<not> 0 < fst (waitpid_nohang os (k + j))"
  shows "status (procs (reap os k pids st)) =
           (if WIFSIGNALED (snd (waitpid_nohang os (k + i))) \<noteq> 0 then 2
            else WEXITSTATUS (snd (waitpid_nohang os (k + i)))) \<and>
         (WIFSIGNALED (snd (waitpid_nohang os (k + i))) \<noteq> 0 \<longrightarrow>
            signal (procs (reap os k pids st)) = WTERMSIG (snd (waitpid_nohang os (k + i))))"
  using assms
proof (induction pids arbitrary: i k st)
  case Nil
  then show ?case by simp
next
  case (Cons pid pids)
  let ?st' = "if 0 < fst (waitpid_nohang os k)
              then report pid (snd (waitpid_nohang os k)) (emit (Waitpid pid WNOHANG) st)
              else emit (Waitpid pid WNOHANG) st"
  show ?case
  proof (cases i)
    case 0
    with Cons.prems have "\<forall>j<length pids. \<not> 0 < fst (waitpid_nohang os (Suc k + j))"
      by force
    then have "procs (reap os (Suc k) pids ?st') = procs ?st'"
      by (rule reap_none)
    with 0 Cons.prems show ?thesis
      by (simp add: Let_def report_simps)
  next
    case (Suc i')
    with Cons.prems have a: "i' < length pids" "0 < fst (waitpid_nohang os (Suc k + i'))"
      by simp_all
    from Suc Cons.prems
    have b: "\<forall>j. i' < j \<and> j < length pids \<longrightarrow> \<not> 0 < fst (waitpid_nohang os (Suc k + j))"
      by force
    from Cons.IH [OF a b, of ?st'] Suc show ?thesis
      by (simp add: Let_def)
  qed
qed

lemma child_pids:
  "backgroundPids (procs (snd (child os cmd sourceFD targetFD st))) = backgroundPids (procs st)"
  by (simp add: child_def Let_def split: option.splits)

lemma parent_pids:
  "backgroundPids (procs (snd (parent os cmd sourceFD targetFD newPid st))) =
     (if ampersand cmd \<noteq> 0 \<and> pidCount (procs st) < 500
      then backgroundPids (procs st) @ [newPid] else backgroundPids (procs st))"
  by (simp add: parent_def Let_def pidCount_def)

lemma otherCommands_pids:
  "\<exists>xs. backgroundPids (procs (snd (otherCommands os cmd st))) = backgroundPids (procs st) @ xs"
  by (simp add: otherCommands_def Let_def child_pids parent_pids split: option.splits)

lemma dispatch_pids:
  "\<exists>xs. backgroundPids (procs (snd (dispatch os cmd st))) = backgroundPids (procs st) @ xs"
proof -
  obtain xs where
    "backgroundPids (procs (snd (otherCommands os cmd st))) = backgroundPids (procs st) @ xs"
    using otherCommands_pids by blast
  then show ?thesis
    by (cases "otherCommands os cmd st")
       (auto simp: dispatch_def exitShell_eq cdShell_procs statusShell_procs split: option.splits)
qed

lemma parseInput_pids:
  "\<exists>xs. backgroundPids (procs (snd (parseInput os input st))) = backgroundPids (procs st) @ xs"
  using dispatch_pids
  by (simp add: parseInput_def split: option.splits prod.splits sum.splits)

lemma shell_iteration_pids:
  "\<exists>xs. backgroundPids (procs (snd (shell_iteration os line st))) =
     backgroundPids (procs st) @ xs"
proof -
  obtain xs where xs:
    "backgroundPids (procs (snd (parseInput os (fst (strtok line nl)) (emit (Printf '': '') st)))) =
       backgroundPids (procs st) @ xs"
    using parseInput_pids [of os "fst (strtok line nl)" "emit (Printf '': '') st"] by auto
  show ?thesis
    by (cases "parseInput os (fst (strtok line nl)) (emit (Printf '': '') st)")
       (use xs in \<open>auto simp: shell_iteration_def reaper_def reap_backgroundPids split: sum.splits\<close>)
qed

lemma shell_pids:
  "\<exists>xs. backgroundPids (procs (snd (shell session st))) = backgroundPids (procs st) @ xs"
proof (induction session arbitrary: st)
  case Nil
  show ?case by simp
next
  case (Cons a session)
  obtain os line where a: "a = (os, line)" by (cases a)
  obtain r st' where it: "shell_iteration os line st = (r, st')"
    by (cases "shell_iteration os line st")
  obtain xs where xs: "backgroundPids (procs st') = backgroundPids (procs st) @ xs"
    using shell_iteration_pids [of os line st] it by auto
  obtain ys where ys:
    "backgroundPids (procs (snd (shell session st'))) = backgroundPids (procs st') @ ys"
    using Cons.IH by blast
  show ?case
    using xs ys by (auto simp: a it split: sum.splits)
qed

lemma otherCommands_background:
  assumes "ampersand cmd = 1" and "0 < fork_ret os" and "pidCount (procs st) < 500"
    and "inputFile cmd \<noteq> None \<longrightarrow> open_input os \<noteq> - 1"
    and "outputFile cmd \<noteq> None \<and> inputFile cmd = None \<longrightarrow> stack_sourceFD os \<noteq> - 1"
  shows "otherCommands os cmd st =
          (None, snd (otherCommands os cmd st)) \<and>
         procs (snd (otherCommands os cmd st)) =
           (procs st)\<lparr>backgroundPids := backgroundPids (procs st) @ [fork_ret os]\<rparr>"
  using assms
  by (auto simp: otherCommands_def parent_def Let_def pidCount_def split: option.splits)

text \<open>
  Claim C6, as the code has it. \<open>backgroundPids\<close> only grows: after any session it is the
  old list followed by new entries, and the polling loop leaves it as it is. For every
  index whose non-blocking \<open>waitpid\<close> returns a positive value the loop prints the line
  about that process id; the last such index decides \<open>status\<close> (2 and the signal number
  in \<open>signal\<close> for a signalled child, the exit code otherwise). A background command
  whose files open, run in the parent with room left in the array, appends the new
  process id at the end and changes nothing else in the process table.
\<close>

theorem background_pids_only_grow:
  "(\<exists>xs. backgroundPids (procs (snd (shell session st))) = backgroundPids (procs st) @ xs) \<and>
   backgroundPids (procs (reaper os st)) = backgroundPids (procs st) \<and>
   (\<forall>i<pidCount (procs st). 0 < fst (waitpid_nohang os i) \<longrightarrow>
      Printf (reported_line (backgroundPids (procs st) ! i) (snd (waitpid_nohang os i)))
        \<in> set (trace (reaper os st))) \<and>
   (\<forall>i<pidCount (procs st).
      0 < fst (waitpid_nohang os i) \<and>
      (\<forall>j. i < j \<and> j < pidCount (procs st) \<longrightarrow> \<not> 0 < fst (waitpid_nohang os j)) \<longrightarrow>
      status (procs (reaper os st)) =
        (if WIFSIGNALED (snd (waitpid_nohang os i)) \<noteq> 0 then 2
         else WEXITSTATUS (snd (waitpid_nohang os i))) \<and>
      (WIFSIGNALED (snd (waitpid_nohang os i)) \<noteq> 0 \<longrightarrow>
         signal (procs (reaper os st)) = WTERMSIG (snd (waitpid_nohang os i)))) \<and>
   (ampersand cmd = 1 \<and> 0 < fork_ret os \<and> pidCount (procs st) < 500 \<and>
    (inputFile cmd \<noteq> None \<longrightarrow> open_input os \<noteq> - 1) \<and>
    (outputFile cmd \<noteq> None \<and> inputFile cmd = None \<longrightarrow> stack_sourceFD os \<noteq> - 1) \<longrightarrow>
      procs (snd (otherCommands os cmd st)) =
        (procs st)\<lparr>backgroundPids := backgroundPids (procs st) @ [fork_ret os]\<rparr>)"
proof -
  have p1: "\<exists>xs. backgroundPids (procs (snd (shell session st))) = backgroundPids (procs st) @ xs"
    by (rule shell_pids)
  have p2: "backgroundPids (procs (reaper os st)) = backgroundPids (procs st)"
    by (simp add: reaper_def reap_backgroundPids)
  have p3: "\<forall>i<pidCount (procs st). 0 < fst (waitpid_nohang os i) \<longrightarrow>
      Printf (reported_line (backgroundPids (procs st) ! i) (snd (waitpid_nohang os i)))
        \<in> set (trace (reaper os st))"
  proof (intro allI impI)
    fix i
    assume "i < pidCount (procs st)" "0 < fst (waitpid_nohang os i)"
    then show "Printf (reported_line (backgroundPids (procs st) ! i) (snd (waitpid_nohang os i)))
        \<in> set (trace (reaper os st))"
      using reap_reports [of i "backgroundPids (procs st)" os 0 st]
      by (simp add: reaper_def pidCount_def)
  qed
  have p4: "\<forall>i<pidCount (procs st).
      0 < fst (waitpid_nohang os i) \<and>
      (\<forall>j. i < j \<and> j < pidCount (procs st) \<longrightarrow> \<not> 0 < fst (waitpid_nohang os j)) \<longrightarrow>
      status (procs (reaper os st)) =
        (if WIFSIGNALED (snd (waitpid_nohang os i)) \<noteq> 0 then 2
         else WEXITSTATUS (snd (waitpid_nohang os i))) \<and>
      (WIFSIGNALED (snd (waitpid_nohang os i)) \<noteq> 0 \<longrightarrow>
         signal (procs (reaper os st)) = WTERMSIG (snd (waitpid_nohang os i)))"
  proof (intro allI impI)
    fix i
    assume "i < pidCount (procs st)"
      and "0 < fst (waitpid_nohang os i) \<and>
        (\<forall>j. i < j \<and> j < pidCount (procs st) \<longrightarrow> \<not> 0 < fst (waitpid_nohang os j))"
    then show "status (procs (reaper os st)) =
        (if WIFSIGNALED (snd (waitpid_nohang os i)) \<noteq> 0 then 2
         else WEXITSTATUS (snd (waitpid_nohang os i))) \<and>
      (WIFSIGNALED (snd (waitpid_nohang os i)) \<noteq> 0 \<longrightarrow>
         signal (procs (reaper os st)) = WTERMSIG (snd (waitpid_nohang os i)))"
      using reap_last_status [of i "backgroundPids (procs st)" os 0 st]
      by (simp add: reaper_def pidCount_def)
  qed
  have p5: "ampersand cmd = 1 \<and> 0 < fork_ret os \<and> pidCount (procs st) < 500 \<and>
    (inputFile cmd \<noteq> None \<longrightarrow> open_input os \<noteq> - 1) \<and>
    (outputFile cmd \<noteq> None \<and> inputFile cmd = None \<longrightarrow> stack_sourceFD os \<noteq> - 1) \<longrightarrow>
      procs (snd (otherCommands os cmd st)) =
        (procs st)\<lparr>backgroundPids := backgroundPids (procs st) @ [fork_ret os]\<rparr>"
    using otherCommands_background [of cmd os st] by blast
  show ?thesis
    by (intro conjI; fact)
qed

theorem background_pids_only_grow_witness:
  "backgroundPids (procs (reaper (quiet_os\<lparr>waitpid_nohang := (\<lambda>i. (if i = 0 then 100 else 0, WSignaled 15))\<rparr>)
      ((main 0)\<lparr>procs := \<lparr>backgroundPids = [100, 101], status = 0, signal = 0\<rparr>\<rparr>))) = [100, 101] \<and>
   Printf (reported_line 100 (WSignaled 15)) \<in>
     set (trace (reaper (quiet_os\<lparr>waitpid_nohang := (\<lambda>i. (if i = 0 then 100 else 0, WSignaled 15))\<rparr>)
      ((main 0)\<lparr>procs := \<lparr>backgroundPids = [100, 101], status = 0, signal = 0\<rparr>\<rparr>))) \<and>
   procs (reaper (quiet_os\<lparr>waitpid_nohang := (\<lambda>i. (if i = 0 then 100 else 0, WSignaled 15))\<rparr>)
      ((main 0)\<lparr>procs := \<lparr>backgroundPids = [100, 101], status = 0, signal = 0\<rparr>\<rparr>)) =
     \<lparr>backgroundPids = [100, 101], status = 2, signal = 15\<rparr> \<and>
   procs (snd (otherCommands (quiet_os\<lparr>waitpid_nohang := (\<lambda>i. (if i = 0 then 100 else 0, WSignaled 15))\<rparr>)
      \<lparr>command = ''sleep'', arguments = zeroed(0 := Some ''sleep'', 1 := Some ''5''),
       inputFile = None, outputFile = None, ampersand = 1\<rparr>
      ((main 0)\<lparr>procs := \<lparr>backgroundPids = [100, 101], status = 0, signal = 0\<rparr>\<rparr>))) =
     \<lparr>backgroundPids = [100, 101, 4321], status = 0, signal = 0\<rparr>"
  using background_pids_only_grow
    [where os = "quiet_os\<lparr>waitpid_nohang := (\<lambda>i. (if i = 0 then 100 else 0, WSignaled 15))\<rparr>"
       and st = "(main 0)\<lparr>procs := \<lparr>backgroundPids = [100, 101], status = 0, signal = 0\<rparr>\<rparr>"
       and cmd = "\<lparr>command = ''sleep'', arguments = zeroed(0 := Some ''sleep'', 1 := Some ''5''),
                    inputFile = None, outputFile = None, ampersand = 1\<rparr>"
       and session = "[]"]
  by (simp add: quiet_os_def main_def reaper_def Let_def report_def emit_def set_status_def
      set_signal_def reported_line_def otherCommands_def parent_def pidCount_def)

text \<open>
  Claim C6 as stated fails: the process id 100 is reported as ended and stays in
  \<open>backgroundPids\<close>, it is polled again in the next pass, and the list holds it twice.
\<close>

theorem background_pids_counterexample:
  "shell [(ended_os, ''true &'' @ nl), (reused_os, ''true &'' @ nl)] (main 0) =
    (Inr 0,
     \<lparr>procs = \<lparr>backgroundPids = [100, 100], status = 0, signal = 0\<rparr>,
      foreground = 0,
      trace =
       [Sigaction SIGINT SIG_IGN, Sigaction SIGTSTP Handler_SIGTSTP,
        Printf '': '', Fork, Open ''/dev/null/'' O_RDONLY,
        Open ''/dev/null/'' O_WRONLY_CREAT_TRUNC_0644,
        Sigaction SIGINT SIG_IGN, Sigaction SIGTSTP SIG_IGN,
        Printf (''Background process is 100'' @ nl),
        Sigaction SIGTSTP Handler_SIGTSTP, Waitpid 100 WNOHANG,
        Printf (''Process 100 ended with status 0'' @ nl), Printf '': '', Fork,
        Open ''/dev/null/'' O_RDONLY,
        Open ''/dev/null/'' O_WRONLY_CREAT_TRUNC_0644,
        Sigaction SIGINT SIG_IGN, Sigaction SIGTSTP SIG_IGN,
        Printf (''Background process is 100'' @ nl),
        Sigaction SIGTSTP Handler_SIGTSTP, Waitpid 100 WNOHANG,
        Waitpid 100 WNOHANG]\<rparr>)"
  by code_simp

subsection \<open>Lines of spaces and comment lines\<close>

lemma strtok_spaces:
  "set line \<subseteq> {CHR '' ''} \<Longrightarrow> strtok line '' '' = (None, line, [])"
  by (auto simp: strtok_def Let_def)

lemma strtok_hash:
  "take 1 line = ''#'' \<Longrightarrow>
     \<exists>tok saved. strtok line '' '' = (Some (CHR ''#'' # tok), CHR ''#'' # tok, saved)"
  by (cases line) (simp_all add: strtok_def Let_def)

lemma strtok_newline:
  assumes "line \<noteq> []" and "CHR 0x0A \<notin> set line"
  shows "fst (strtok (line @ nl) nl) = Some line"
proof -
  from assms obtain c cs where line: "line = c # cs" and c: "c \<noteq> CHR 0x0A"
    by (cases line) auto
  have "takeWhile (\<lambda>c. c \<notin> set nl) (line @ nl) = line @ takeWhile (\<lambda>c. c \<notin> set nl) nl"
    by (rule takeWhile_append2) (use assms(2) in \<open>auto simp: nl_def\<close>)
  then have "takeWhile (\<lambda>c. c \<notin> set nl) (line @ nl) = line"
    by (simp add: nl_def)
  moreover have "dropWhile (\<lambda>c. c \<in> set nl) (line @ nl) = line @ nl"
    using c by (simp add: line nl_def)
  ultimately show ?thesis
    using assms(1) by (simp add: strtok_def Let_def)
qed

text \<open>
  Claim C8, as the code has it. A line that fits the buffer and is made of one or more
  spaces, or whose first character is \<open>#\<close>, builds no command and dispatches nothing:
  \<open>parseInput\<close> returns 0 with the state and the trace unchanged, and a pass of the loop
  on such a line prints the prompt and polls the tracked process ids, nothing else.
\<close>

theorem space_and_comment_lines_are_skipped:
  assumes "length line < len"
    and "(line \<noteq> [] \<and> set line \<subseteq> {CHR '' ''}) \<or> take 1 line = ''#''"
  shows "parseInput os (Some line) st = (Inr 0, st) \<and>
         (CHR 0x0A \<notin> set line \<longrightarrow>
            shell_iteration os (line @ nl) st = (Inr 0, reaper os (emit (Printf '': '') st)))"
proof -
  have p: "parseInput os (Some line) st = (Inr 0, st)" for st
    using assms(2)
  proof
    assume sp: "line \<noteq> [] \<and> set line \<subseteq> {CHR '' ''}"
    then have "line \<noteq> nl" by (auto simp: nl_def)
    with sp assms(1) show ?thesis
      by (simp add: parseInput_def strtok_spaces)
  next
    assume "take 1 line = ''#''"
    from strtok_hash [OF this] obtain tok saved where
      "strtok line '' '' = (Some (CHR ''#'' # tok), CHR ''#'' # tok, saved)"
      by blast
    with assms(1) show ?thesis
      by (simp add: parseInput_def nl_def)
  qed
  from assms(2) have "line \<noteq> []" by auto
  then have "CHR 0x0A \<notin> set line \<Longrightarrow> fst (strtok (line @ nl) nl) = Some line"
    by (rule strtok_newline)
  with p show ?thesis
    by (simp add: shell_iteration_def)
qed

theorem space_and_comment_lines_are_skipped_witness:
  "length ''# a comment'' < len \<and> take 1 ''# a comment'' = ''#'' \<and>
   parseInput quiet_os (Some ''# a comment'') (main 0) = (Inr 0, main 0) \<and>
   shell_iteration quiet_os (''# a comment'' @ nl) (main 0) =
     (Inr 0, reaper quiet_os (emit (Printf '': '') (main 0))) \<and>
   set ''   '' \<subseteq> {CHR '' ''} \<and>
   parseInput quiet_os (Some ''   '') (main 0) = (Inr 0, main 0)"
  using space_and_comment_lines_are_skipped [of "''# a comment''" quiet_os "main 0"]
    space_and_comment_lines_are_skipped [of "''   ''" quiet_os "main 0"]
  by (simp add: len_def)

text \<open>
  Claim C8 as stated fails: a line whose first non-space character is \<open>#\<close>, after a
  space, is run as an external command; and a comment line of 2049 characters does not
  fit \<open>inputCopy\<close>.
\<close>

theorem spaces_before_hash_counterexample:
  "shell_iteration (quiet_os\<lparr>wait_childStatus := WExited 1\<rparr>) ('' # a comment'' @ nl) (main 0) =
     (Inr 0,
      \<lparr>procs = \<lparr>backgroundPids = [], status = 1, signal = 0\<rparr>, foreground = 0,
       trace =
         [Sigaction SIGINT SIG_IGN, Sigaction SIGTSTP Handler_SIGTSTP,
          Printf '': '', Fork, Sigaction SIGINT SIG_IGN,
          Sigaction SIGTSTP SIG_IGN, Sigaction SIGTSTP Handler_SIGTSTP,
          Waitpid 4321 Blocking]\<rparr>) \<and>
   parseInput quiet_os (Some (replicate 2049 (CHR ''#''))) (main 0) =
     (Inl BufferOverflow, main 0)"
proof
  show "shell_iteration (quiet_os\<lparr>wait_childStatus := WExited 1\<rparr>) ('' # a comment'' @ nl)
      (main 0) =
     (Inr 0,
      \<lparr>procs = \<lparr>backgroundPids = [], status = 1, signal = 0\<rparr>, foreground = 0,
       trace =
         [Sigaction SIGINT SIG_IGN, Sigaction SIGTSTP Handler_SIGTSTP,
          Printf '': '', Fork, Sigaction SIGINT SIG_IGN,
          Sigaction SIGTSTP SIG_IGN, Sigaction SIGTSTP Handler_SIGTSTP,
          Waitpid 4321 Blocking]\<rparr>)"
    by code_simp
  show "parseInput quiet_os (Some (replicate 2049 (CHR ''#''))) (main 0) =
     (Inl BufferOverflow, main 0)"
    by (simp add: parseInput_def len_def)
qed

text \<open>
  An empty line reaches \<open>parseInput\<close> as NULL, since \<open>strtok(input, "\n")\<close> finds no token
  in it; the test for a blank line at line 426 is never reached.
\<close>

lemma blank_line_passes_NULL:
  "shell_iteration os nl st = (Inl NullPointer, emit (Printf '': '') st)"
  by (simp add: shell_iteration_def strtok_def nl_def parseInput_def)

subsection \<open>Runs of the code where it departs from its description\<close>

text \<open>
  What the expansion does get right: a line without the marker is returned as it is,
  and so is a line with one marker and no other \<open>$\<close>, the marker not at the start,
  with the process id in its place.
\<close>

lemma strstr_no_dollar:
  "CHR ''$'' \<notin> set s \<Longrightarrow> strstr s ''$$'' = None"
  by (induction s) auto

lemma strstr_first_marker:
  "CHR ''$'' \<notin> set pre \<Longrightarrow>
     strstr (pre @ CHR ''$'' # CHR ''$'' # post) ''$$'' = Some (CHR ''$'' # CHR ''$'' # post)"
  by (induction pre) auto

lemma strtok_before_marker:
  assumes "CHR ''$'' \<notin> set pre" and "pre \<noteq> []"
  shows "strtok (pre @ CHR ''$'' # CHR ''$'' # post) ''$$'' = (Some pre, pre, CHR ''$'' # post)"
proof -
  let ?s = "pre @ CHR ''$'' # CHR ''$'' # post"
  from assms obtain c cs where pre: "pre = c # cs" and c: "c \<noteq> CHR ''$''"
    by (cases pre) auto
  have t: "takeWhile (\<lambda>c. c \<notin> set ''$$'') ?s =
        pre @ takeWhile (\<lambda>c. c \<notin> set ''$$'') (CHR ''$'' # CHR ''$'' # post)"
    by (rule takeWhile_append2) (use assms(1) in auto)
  have d: "dropWhile (\<lambda>c. c \<notin> set ''$$'') ?s =
        dropWhile (\<lambda>c. c \<notin> set ''$$'') (CHR ''$'' # CHR ''$'' # post)"
    by (rule dropWhile_append2) (use assms(1) in auto)
  have l: "dropWhile (\<lambda>c. c \<in> set ''$$'') ?s = ?s"
    "takeWhile (\<lambda>c. c \<in> set ''$$'') ?s = []"
    using c by (simp_all add: pre)
  show ?thesis
    unfolding strtok_def Let_def l t d using assms(2) by simp
qed

lemma strtok_after_marker:
  assumes "CHR ''$'' \<notin> set post"
  shows "fst (strtok (CHR ''$'' # CHR ''$'' # post) ''$$'') =
           (if post = [] then None else Some post)"
proof -
  have "dropWhile (\<lambda>c. c \<in> set ''$$'') post = post"
    using assms by (cases post) auto
  moreover have "takeWhile (\<lambda>c. c \<notin> set ''$$'') post = post"
    using assms by (auto simp: takeWhile_eq_all_conv)
  ultimately show ?thesis
    by (simp add: strtok_def Let_def)
qed

lemma expand_single_marker:
  assumes "CHR ''$'' \<notin> set pre" and "CHR ''$'' \<notin> set post" and "pre \<noteq> []"
    and "length (show_int pid) < 6"
    and "length (pre @ show_int pid @ post) < len"
  shows "expand pid (pre @ ''$$'' @ post) = Inr (pre @ show_int pid @ post)"
proof -
  have "expand_loop (show_int pid) (pre @ CHR ''$'' # CHR ''$'' # post) [] =
          expand_loop (show_int pid) pre (pre @ show_int pid @ post)"
    using assms(5)
    by (subst expand_loop.simps)
       (simp add: strstr_first_marker [OF assms(1)] strtok_before_marker [OF assms(1,3)]
          strtok_after_marker [OF assms(2)])
  also have "\<dots> = Inr (pre @ show_int pid @ post)"
    by (subst expand_loop.simps) (simp add: strstr_no_dollar [OF assms(1)])
  finally show ?thesis
    using assms(4) by (simp add: expand_def strstr_first_marker [OF assms(1)])
qed

lemma expand_no_marker:
  "strstr line ''$$'' = None \<Longrightarrow> length (show_int pid) < 6 \<Longrightarrow> expand pid line = Inr line"
  by (simp add: expand_def)

text \<open>
  Claim C1. On \<open>echo $$ $$\<close> in a shell with process id 1234 the expansion returns
  \<open>echo 1234\<close> and a space: the second marker and what follows it are lost, and the
  child executes \<open>echo\<close> with the one argument \<open>1234\<close>.
\<close>

theorem expansion_stops_after_first_marker:
  "expand 1234 ''echo $$ $$'' = Inr ''echo 1234 '' \<and>
   fst (shell_iteration (quiet_os\<lparr>fork_ret := 0\<rparr>) (''echo $$ $$'' @ nl) (main 0)) =
     Inl ImageReplaced \<and>
   last (trace (snd (shell_iteration (quiet_os\<lparr>fork_ret := 0\<rparr>) (''echo $$ $$'' @ nl) (main 0)))) =
     Execvp ''echo'' [''echo'', ''1234'']"
  by code_simp

text \<open>
  What \<open>status\<close> prints at startup, and after a foreground command for every status of
  the child: the exit value for 0 and 1 only.
\<close>

lemma status_at_startup:
  "statusShell (main signal0) = emit (Printf (''exit value 0'' @ nl)) (main signal0)"
  by (simp add: statusShell_def main_def)

lemma status_after_foreground_command:
  assumes "ampersand cmd = 0"
  shows "trace (statusShell (snd (parent os cmd sourceFD targetFD newPid st))) =
           trace (snd (parent os cmd sourceFD targetFD newPid st)) @
           [Printf (case wait_childStatus os of
                      WExited n \<Rightarrow>
                        (if n = 0 then ''exit value 0''
                         else if n = 1 then ''exit value 1''
                         else ''terminated by signal '' @ show_int (signal (procs st))) @ nl
                    | WSignaled s \<Rightarrow> ''terminated by signal '' @ show_int s @ nl)]"
  using assms
  by (cases "wait_childStatus os") (simp_all add: parent_def Let_def statusShell_def)

text \<open>
  Claim C2. After a foreground command that exits with code 2, \<open>status\<close> prints
  \<open>terminated by signal\<close> and the number in the field \<open>signal\<close>, not \<open>exit value 2\<close>.
\<close>

theorem status_after_exit_code_2:
  "shell [(quiet_os\<lparr>wait_childStatus := WExited 2\<rparr>, ''ls nosuchfile'' @ nl),
          (quiet_os, ''status'' @ nl)] (main 0) =
     (Inr 0,
      \<lparr>procs = \<lparr>backgroundPids = [], status = 2, signal = 0\<rparr>, foreground = 0,
       trace =
         [Sigaction SIGINT SIG_IGN, Sigaction SIGTSTP Handler_SIGTSTP,
          Printf '': '', Fork, Sigaction SIGINT SIG_IGN,
          Sigaction SIGTSTP SIG_IGN, Sigaction SIGTSTP Handler_SIGTSTP,
          Waitpid 4321 Blocking, Printf '': '',
          Printf (''terminated by signal 0'' @ nl)]\<rparr>)"
  by code_simp

text \<open>
  With an input file that opens, the command is forked whatever the second \<open>open\<close>
  returns.
\<close>

lemma output_open_result_is_not_tested:
  assumes "inputFile cmd = Some file" and "outputFile cmd = Some file'"
    and "open_input os \<noteq> - 1"
  shows "\<exists>es. trace (snd (otherCommands os cmd st)) =
           trace st @ [Open file O_RDONLY, Open file' O_WRONLY_CREAT_TRUNC_0644, Fork] @ es"
  using assms
  by (simp add: otherCommands_def Let_def child_def parent_def pidCount_def
      split: option.splits)

text \<open>
  Claim C3. The output file cannot be opened (\<open>open\<close> returns -1) and the input file can:
  the test after the second \<open>open\<close> reads \<open>sourceFD\<close>, so nothing is printed, \<open>status\<close>
  is not set to 1 and the command is forked.
\<close>

theorem output_open_failure_still_forks:
  "shell_iteration (quiet_os\<lparr>open_output := - 1\<rparr>)
     (''cat < in.txt > nosuchdir/out.txt'' @ nl) (main 0) =
     (Inr 0,
      \<lparr>procs = \<lparr>backgroundPids = [], status = 0, signal = 0\<rparr>, foreground = 0,
       trace =
         [Sigaction SIGINT SIG_IGN, Sigaction SIGTSTP Handler_SIGTSTP,
          Printf '': '', Open ''in.txt'' O_RDONLY,
          Open ''nosuchdir/out.txt'' O_WRONLY_CREAT_TRUNC_0644, Fork,
          Sigaction SIGINT SIG_IGN, Sigaction SIGTSTP SIG_IGN, Close 3,
          Close (- 1), Sigaction SIGTSTP Handler_SIGTSTP,
          Waitpid 4321 Blocking]\<rparr>)"
  by code_simp

text \<open>
  The child of a background command without redirections makes no call of \<open>dup2\<close>,
  whatever the two opens of \<open>/dev/null/\<close> return.
\<close>

lemma background_child_without_redirects:
  assumes "ampersand cmd = 1" and "inputFile cmd = None" and "outputFile cmd = None"
    and "fork_ret os = 0" and "argv cmd = Some vector"
  shows "trace (snd (otherCommands os cmd st)) =
           trace st @
           [Fork, Open ''/dev/null/'' O_RDONLY, Open ''/dev/null/'' O_WRONLY_CREAT_TRUNC_0644,
            Sigaction SIGINT SIG_IGN, Sigaction SIGTSTP SIG_IGN,
            Execvp (command cmd) vector] @
           (if execvp_ret os = - 1 then [Printf (''Command not found.'' @ nl)] else [])"
  using assms
  by (simp add: otherCommands_def Let_def child_def)

text \<open>
  Claim C4. The child of the background command \<open>sleep 5 &\<close>, even when both opens of
  \<open>/dev/null/\<close> succeed, calls \<open>execvp\<close> without any \<open>dup2\<close>: its standard input and
  output are those of the shell.
\<close>

theorem background_child_keeps_its_descriptors:
  "shell_iteration (quiet_os\<lparr>fork_ret := 0, open_null_rd := 3, open_null_wr := 4\<rparr>)
     (''sleep 5 &'' @ nl) (main 0) =
     (Inl ImageReplaced,
      \<lparr>procs = \<lparr>backgroundPids = [], status = 0, signal = 0\<rparr>, foreground = 0,
       trace =
         [Sigaction SIGINT SIG_IGN, Sigaction SIGTSTP Handler_SIGTSTP,
          Printf '': '', Fork, Open ''/dev/null/'' O_RDONLY,
          Open ''/dev/null/'' O_WRONLY_CREAT_TRUNC_0644,
          Sigaction SIGINT SIG_IGN, Sigaction SIGTSTP SIG_IGN,
          Execvp ''sleep'' [''sleep'', ''5'']]\<rparr>)"
  by code_simp

end
